theory Spec2Isabelle
  imports Main
begin

section \<open>The card farmer of \<^verbatim>\<open>src/main.ts\<close>\<close>

text \<open>
  The class \<^verbatim>\<open>CardFarmer\<close> logs on to Steam, reads the badge pages of the account for
  games that still drop trading cards, idles up to 27 of them for 15 minutes, and starts
  over. This theory embeds its methods as functions on an explicit state. The objects the
  class only talks to (the Steam client, the HTTP client with its cookie jar, the timers
  of the event loop, the readline interface) appear as fields of that state: the calls
  made, the requests sent, the timers that are live.
\<close>

subsection \<open>Strings and numbers of the host language\<close>

text \<open>\<^verbatim>\<open>s.indexOf(p) !== -1\<close>: the string \<open>p\<close> occurs in \<open>s\<close>.\<close>

fun startsWith :: "string \<Rightarrow> string \<Rightarrow> bool" where
  "startsWith [] s = True"
| "startsWith (p # ps) [] = False"
| "startsWith (p # ps) (c # cs) = (p = c \<and> startsWith ps cs)"

fun occursIn :: "string \<Rightarrow> string \<Rightarrow> bool" where
  "occursIn p [] = (p = [])"
| "occursIn p (c # cs) = (startsWith p (c # cs) \<or> occursIn p cs)"

text \<open>
  White space as \<^verbatim>\<open>\s\<close> and \<^verbatim>\<open>trim\<close> see it, on the ASCII range (strings are byte
  lists here): space, tab, line feed, vertical tab, form feed, carriage return.
\<close>

definition isSpace :: "char \<Rightarrow> bool" where
  "isSpace c = (c \<in> set [CHR '' '', CHR 0x09, CHR 0x0A, CHR 0x0B, CHR 0x0C, CHR 0x0D])"

definition trim :: "string \<Rightarrow> string" where
  "trim s = rev (dropWhile isSpace (rev (dropWhile isSpace s)))"

text \<open>\<^verbatim>\<open>line.split(/\s/)\<close>: a cut at every single blank, so two blanks give an empty piece.\<close>

fun splitSpace :: "string \<Rightarrow> string list" where
  "splitSpace [] = [[]]"
| "splitSpace (c # cs) =
     (if isSpace c then [] # splitSpace cs
      else (case splitSpace cs of [] \<Rightarrow> [[c]] | w # ws \<Rightarrow> (c # w) # ws))"

text \<open>\<^verbatim>\<open>toLowerCase\<close> on the ASCII letters.\<close>

definition lowerChar :: "char \<Rightarrow> char" where
  "lowerChar c =
     (case map_of (zip ''ABCDEFGHIJKLMNOPQRSTUVWXYZ'' ''abcdefghijklmnopqrstuvwxyz'') c of
        None \<Rightarrow> c | Some l \<Rightarrow> l)"

definition toLowerCase :: "string \<Rightarrow> string" where
  "toLowerCase s = map lowerChar s"

text \<open>Decimal digits: \<^verbatim>\<open>.replace(/[^0-9]+/g, "")\<close> keeps exactly these.\<close>

definition isDigit :: "char \<Rightarrow> bool" where
  "isDigit c = (c \<in> set ''0123456789'')"

definition onlyDigits :: "string \<Rightarrow> string" where
  "onlyDigits s = filter isDigit s"

definition digitVal :: "char \<Rightarrow> nat" where
  "digitVal c =
     (case map_of (zip ''0123456789'' [0, 1, 2, 3, 4, 5, 6, 7, 8, 9]) c of
        None \<Rightarrow> 0 | Some d \<Rightarrow> d)"

definition decimalValue :: "string \<Rightarrow> nat" where
  "decimalValue s = foldl (\<lambda>n c. 10 * n + digitVal c) 0 s"

text \<open>
  A \<^verbatim>\<open>number\<close> obtained with unary plus from a string. A string of decimal digits is
  read as the number it spells and the empty string as 0; every other string is read as
  \<open>NaN\<close>. (The host language also reads signs, fractions, exponents, radix prefixes and
  surrounding blanks, and rounds beyond \<open>2^53\<close>; an application id or a card count has
  none of these, and they are left out.) Equality on \<open>jsnum\<close> is the one \<^verbatim>\<open>Set.has\<close>
  uses, under which \<open>NaN\<close> is equal to itself.
\<close>

datatype jsnum = Num nat | NaN

definition toNumber :: "string \<Rightarrow> jsnum" where
  "toNumber s = (if list_all isDigit s then Num (decimalValue s) else NaN)"

text \<open>Truthiness: \<open>0\<close> and \<open>NaN\<close> are false, the empty string and \<^verbatim>\<open>undefined\<close> are false.\<close>

fun truthyNum :: "jsnum \<Rightarrow> bool" where
  "truthyNum (Num n) = (n \<noteq> 0)"
| "truthyNum NaN = False"

fun truthyStr :: "string option \<Rightarrow> bool" where
  "truthyStr None = False"
| "truthyStr (Some s) = (s \<noteq> [])"

text \<open>\<^verbatim>\<open>a || b\<close> on optional strings.\<close>

definition orElse :: "string option \<Rightarrow> string option \<Rightarrow> string option" where
  "orElse a b = (if truthyStr a then a else b)"

text \<open>
  \<^verbatim>\<open>href.replace(/.*cards\/(.*)\//, "$1")\<close> on a string without line breaks. Both stars
  are greedy: the match starts at the front, the first star runs to the last
  \<^verbatim>\<open>cards/\<close> that still has a slash after it, and the group runs to the last slash. The
  match is replaced by the group; what follows the last slash stays. Without a match the
  string is returned as it is.
\<close>

fun afterLastCards :: "string \<Rightarrow> string option" where
  "afterLastCards [] = None"
| "afterLastCards (c # cs) =
     (case afterLastCards cs of
        Some r \<Rightarrow> Some r
      | None \<Rightarrow>
          if startsWith ''cards/'' (c # cs) \<and> CHR ''/'' \<in> set (drop 6 (c # cs))
          then Some (drop 6 (c # cs)) else None)"

definition cardsGroup :: "string \<Rightarrow> string" where
  "cardsGroup href =
     (case afterLastCards href of
        None \<Rightarrow> href
      | Some r \<Rightarrow>
          rev (tl (dropWhile (\<lambda>c. c \<noteq> CHR ''/'') (rev r)))
            @ rev (takeWhile (\<lambda>c. c \<noteq> CHR ''/'') (rev r)))"

subsection \<open>Data\<close>

text \<open>\<^verbatim>\<open>type GameTradingCards = { appTitle, appId, leftCards }\<close>\<close>

record GameTradingCards =
  appTitle :: string
  appId :: jsnum
  leftCards :: nat

text \<open>
  What the selectors of \<^verbatim>\<open>getBadges\<close> read from one \<^verbatim>\<open>.badge_row\<close>: the text of
  \<^verbatim>\<open>.progress_info_bold\<close>, the \<^verbatim>\<open>href\<close> of \<^verbatim>\<open>.badge_row_overlay\<close> (absent when the
  row has none) and the text of the first node of \<^verbatim>\<open>.badge_title\<close>. A page is its rows
  and the number of \<^verbatim>\<open>.pagelink\<close> elements in its first \<^verbatim>\<open>.profile_paging\<close>.
\<close>

record badge_row =
  dropsText :: string
  overlayHref :: "string option"
  titleText :: string

record badges_page =
  pagelinks :: nat
  badgeRows :: "badge_row list"

text \<open>
  Requests and responses. A response is either a rejection of the request's promise or a
  reply, of which the code looks at the \<^verbatim>\<open>set-cookie\<close> headers, at the truth of
  \<^verbatim>\<open>data.success\<close> and at the badge page found in \<^verbatim>\<open>data\<close>. The server is any function
  of the number of requests sent so far, the cookies in the jar and the request.
\<close>

datatype request =
    GetBadges string nat
  | PostUnlock jsnum string
  | PostPrivacy string bool string

record reply =
  setCookie :: "string list"
  success :: bool
  badges :: badges_page

datatype response = Rejected | Reply reply

type_synonym server = "nat \<Rightarrow> string list \<Rightarrow> request \<Rightarrow> response"

datatype steam_call =
    LogOn "string option" "string option" "string option"
  | SetPersona jsnum
  | WebLogOn
  | GamesPlayed "jsnum list"
  | LogOff

datatype timer_callback = RevertPrivacy | QuitAndDelay | FetchCardsAndPlay

record timer =
  handle :: nat
  delay :: nat
  callback :: timer_callback

datatype error = PinNotPassed | WrongPin | PrivacyNotSet | RequestFailed

text \<open>
  The fields of the class first, then the world around it: the identity and the calls
  received by the Steam client, the requests sent over HTTP, the visibility the server
  last acknowledged, the timers of the event loop that have not fired or been cleared,
  whether the readline interface is open, and the rejections of promises nobody awaits.
\<close>

record farmer =
  accountName :: "string option"
  password :: "string option"
  parentalPin :: jsnum
  cookiesJar :: "string list"
  sessionId :: string
  userGames :: "jsnum set option"
  delayTimeout :: "nat option"
  privacyTimeout :: "nat option"
  steamID :: "string option"
  steamCalls :: "steam_call list"
  sent :: "request list"
  profilePrivate :: bool
  liveTimers :: "timer list"
  nextHandle :: nat
  readlineOpen :: bool
  unhandled :: "error list"

definition MAX_GAMES_TO_IDLE :: nat where
  "MAX_GAMES_TO_IDLE = 27"

definition TIMEOUT_BETWEEN_CHECKS :: nat where
  "TIMEOUT_BETWEEN_CHECKS = 15 * 60000"

subsection \<open>Construction and log-on\<close>

text \<open>
  The file \<^verbatim>\<open>2idle.json\<close>: absent, present with content that makes the constructor's
  \<^verbatim>\<open>try\<close> fail, or an array whose elements \<^verbatim>\<open>map(Number)\<close> has turned into numbers.
\<close>

datatype selection_file = NoFile | WrongFormat | IdArray "jsnum list"

fun loadUserGames :: "selection_file \<Rightarrow> jsnum set option" where
  "loadUserGames NoFile = None"
| "loadUserGames WrongFormat = None"
| "loadUserGames (IdArray ids) = Some (set ids)"

definition CardFarmer ::
  "string option \<Rightarrow> string option \<Rightarrow> string option \<Rightarrow> selection_file \<Rightarrow> farmer" where
  "CardFarmer accountName0 password0 parentalPin0 file =
     \<lparr> accountName = accountName0,
       password = password0,
       parentalPin = (case parentalPin0 of
                        None \<Rightarrow> Num 0
                      | Some p \<Rightarrow> if p = [] then Num 0 else toNumber p),
       cookiesJar = [],
       sessionId = [],
       userGames = loadUserGames file,
       delayTimeout = None,
       privacyTimeout = None,
       steamID = None,
       steamCalls = [],
       sent = [],
       profilePrivate = False,
       liveTimers = [],
       nextHandle = 0,
       readlineOpen = True,
       unhandled = [] \<rparr>"

definition steamCall :: "steam_call \<Rightarrow> farmer \<Rightarrow> farmer" where
  "steamCall c s = s\<lparr>steamCalls := steamCalls s @ [c]\<rparr>"

definition start :: "string option \<Rightarrow> string option \<Rightarrow> string option \<Rightarrow> farmer \<Rightarrow> farmer" where
  "start accountName0 password0 twoFactorCode s =
     steamCall (LogOn (orElse (accountName s) accountName0)
                      (orElse (password s) password0)
                      twoFactorCode) s"

definition setAxiosCookie :: "string \<Rightarrow> farmer \<Rightarrow> farmer" where
  "setAxiosCookie cookie s = s\<lparr>cookiesJar := cookiesJar s @ [cookie]\<rparr>"

subsection \<open>The HTTP client\<close>

text \<open>
  The client is built as \<^verbatim>\<open>wrapper(axios.create({ ..., jar: this._cookiesJar }))\<close>: the
  cookie-jar support sends the jar's cookies with every request and hands the
  \<^verbatim>\<open>set-cookie\<close> headers of every reply to the jar before the request's promise
  resolves. The jar is the list of the cookie strings handed to it; how it parses and
  expires them is not modelled.
\<close>

definition axiosRequest :: "server \<Rightarrow> request \<Rightarrow> farmer \<Rightarrow> response \<times> farmer" where
  "axiosRequest srv q s =
     (case srv (length (sent s)) (cookiesJar s) q of
        Rejected \<Rightarrow> (Rejected, s\<lparr>sent := sent s @ [q]\<rparr>)
      | Reply r \<Rightarrow>
          (Reply r, s\<lparr>sent := sent s @ [q], cookiesJar := cookiesJar s @ setCookie r\<rparr>))"

text \<open>\<^verbatim>\<open>this._steamClient.steamID?.toString()\<close> inside a template string.\<close>

definition profileOf :: "farmer \<Rightarrow> string" where
  "profileOf s = (case steamID s of None \<Rightarrow> ''undefined'' | Some i \<Rightarrow> i)"

subsection \<open>Timers\<close>

text \<open>
  \<^verbatim>\<open>setTimeout\<close> returns a fresh handle and makes the timer live; \<^verbatim>\<open>clearTimeout\<close> takes
  the timer with that handle, if it is still live, out of the event loop, and does
  nothing for \<^verbatim>\<open>undefined\<close>. Real time is not modelled: the delay is kept as data.
\<close>

definition setTimeout :: "timer_callback \<Rightarrow> nat \<Rightarrow> farmer \<Rightarrow> nat \<times> farmer" where
  "setTimeout cb ms s =
     (nextHandle s,
      s\<lparr>liveTimers := liveTimers s @ [\<lparr>handle = nextHandle s, delay = ms, callback = cb\<rparr>],
        nextHandle := Suc (nextHandle s)\<rparr>)"

definition clearTimeout :: "nat option \<Rightarrow> farmer \<Rightarrow> farmer" where
  "clearTimeout h s =
     (case h of
        None \<Rightarrow> s
      | Some i \<Rightarrow> s\<lparr>liveTimers := filter (\<lambda>t. handle t \<noteq> i) (liveTimers s)\<rparr>)"

subsection \<open>The parental wall and the profile's privacy\<close>

text \<open>
  \<^verbatim>\<open>parentalUnlock\<close>, lines 162 to 187. The number \<open>pin\<close> is sent as its decimal text.
  A missing \<^verbatim>\<open>set-cookie\<close> header is the empty list, in which \<^verbatim>\<open>find\<close> finds nothing.
  A rejected request leaves the function by the rejection, before the log-off.
\<close>

definition parentalUnlock :: "server \<Rightarrow> jsnum \<Rightarrow> farmer \<Rightarrow> (error + string) \<times> farmer" where
  "parentalUnlock srv pin s =
     (case axiosRequest srv (PostUnlock pin (sessionId s)) s of
        (Rejected, s1) \<Rightarrow> (Inl RequestFailed, s1)
      | (Reply r, s1) \<Rightarrow>
          (case (if success r then find (occursIn ''steamparental'') (setCookie r) else None) of
             Some parentalCookie \<Rightarrow> (Inr parentalCookie, s1)
           | None \<Rightarrow> (Inl WrongPin, steamCall LogOff s1)))"

text \<open>
  \<^verbatim>\<open>setTempProfilePrivacy\<close>, lines 190 to 221. \<open>profilePrivate\<close> records what the debug
  line \<^verbatim>\<open>Profile is now ...\<close> reports.
\<close>

definition setTempProfilePrivacy :: "server \<Rightarrow> bool \<Rightarrow> farmer \<Rightarrow> (error + unit) \<times> farmer" where
  "setTempProfilePrivacy srv isPrivate s =
     (case axiosRequest srv (PostPrivacy (profileOf s) isPrivate (sessionId s)) s of
        (Rejected, s1) \<Rightarrow> (Inl RequestFailed, s1)
      | (Reply r, s1) \<Rightarrow>
          if \<not> success r then (Inl PrivacyNotSet, steamCall LogOff s1)
          else
            (let s2 = s1\<lparr>profilePrivate := isPrivate\<rparr> in
             if isPrivate then
               (case setTimeout RevertPrivacy 10000 s2 of
                  (h, s3) \<Rightarrow> (Inr (), s3\<lparr>privacyTimeout := Some h\<rparr>))
             else (Inr (), s2)))"

subsection \<open>Reading the badge pages\<close>

text \<open>
  The body of \<^verbatim>\<open>.each\<close>, lines 239 to 274, over the rows of one page. \<open>None\<close> is the
  \<^verbatim>\<open>TypeError\<close> of \<^verbatim>\<open>.attr("href")!.replace\<close> on a row that has digits and no link; it
  is thrown inside the \<^verbatim>\<open>try\<close>, and what was pushed before it is dropped with the list.
\<close>

fun readRows :: "jsnum set option \<Rightarrow> badge_row list \<Rightarrow> GameTradingCards list option" where
  "readRows ug [] = Some []"
| "readRows ug (row # rest) =
     (let remainingCards = onlyDigits (dropsText row) in
      if remainingCards \<noteq> [] then
        (case overlayHref row of
           None \<Rightarrow> None
         | Some href \<Rightarrow>
             (let appId0 = toNumber (cardsGroup href) in
              if (case ug of None \<Rightarrow> True | Some picked \<Rightarrow> appId0 \<in> picked) then
                map_option
                  (\<lambda>games. \<lparr>appTitle = trim (titleText row), appId = appId0,
                             leftCards = decimalValue remainingCards\<rparr> # games)
                  (readRows ug rest)
              else readRows ug rest))
      else readRows ug rest)"

text \<open>
  The \<^verbatim>\<open>try\<close> block for one page: the new \<^verbatim>\<open>totalPages\<close> and the games of the page, or
  \<open>None\<close> when the block is left for the \<^verbatim>\<open>catch\<close>.
\<close>

definition tryPage ::
  "server \<Rightarrow> nat \<Rightarrow> farmer \<Rightarrow> (nat \<times> GameTradingCards list) option \<times> farmer" where
  "tryPage srv currentPage s =
     (case axiosRequest srv (GetBadges (profileOf s) currentPage) s of
        (Rejected, s1) \<Rightarrow> (None, s1)
      | (Reply r, s1) \<Rightarrow>
          (case readRows (userGames s1) (badgeRows (badges r)) of
             None \<Rightarrow> (None, s1)
           | Some games \<Rightarrow> (Some (pagelinks (badges r) + 1, games), s1)))"

text \<open>
  The \<^verbatim>\<open>catch\<close> block up to its last line: the error it throws, or the state in which
  \<^verbatim>\<open>getBadges\<close> is called again.
\<close>

definition parentalWall :: "server \<Rightarrow> farmer \<Rightarrow> (error \<times> farmer) + farmer" where
  "parentalWall srv s =
     (if \<not> truthyNum (parentalPin s) then Inl (PinNotPassed, s)
      else
        (case parentalUnlock srv (parentalPin s) s of
           (Inl e, s1) \<Rightarrow> Inl (e, s1)
         | (Inr parentalCookie, s1) \<Rightarrow> Inr s1))"

text \<open>
  \<^verbatim>\<open>getBadges\<close>, lines 223 to 289: the \<^verbatim>\<open>for\<close> loop, with the call
  \<^verbatim>\<open>return await this.getBadges()\<close> of the \<^verbatim>\<open>catch\<close> block as the loop started afresh.
  Nothing bounds the pages a server announces or the walls it raises, so the loop is a
  partial function: \<open>None\<close> is a scan that never returns.
\<close>

partial_function (option) badgesLoop ::
  "server \<Rightarrow> farmer \<Rightarrow> nat \<Rightarrow> nat \<Rightarrow> GameTradingCards list
     \<Rightarrow> ((error + GameTradingCards list) \<times> farmer) option" where
  "badgesLoop srv s currentPage totalPages gamesWithCards =
     (if currentPage \<le> totalPages then
        (case tryPage srv currentPage s of
           (Some (totalPages1, games), s1) \<Rightarrow>
             badgesLoop srv s1 (currentPage + 1) totalPages1 (gamesWithCards @ games)
         | (None, s1) \<Rightarrow>
             (case parentalWall srv s1 of
                Inl (e, s2) \<Rightarrow> Some (Inl e, s2)
              | Inr s2 \<Rightarrow> badgesLoop srv s2 1 1 []))
      else Some (Inr gamesWithCards, s))"

declare badgesLoop.simps [code]

definition getBadges ::
  "server \<Rightarrow> farmer \<Rightarrow> ((error + GameTradingCards list) \<times> farmer) option" where
  "getBadges srv s = badgesLoop srv s 1 1 []"

subsection \<open>The idle cycle\<close>

text \<open>
  \<^verbatim>\<open>_idleGames\<close>, \<^verbatim>\<open>_quitIdleGames\<close>, \<^verbatim>\<open>close\<close>. An array is true in \<^verbatim>\<open>if (games)\<close> even
  when empty, so only the call without an argument takes the other branch.
  \<^verbatim>\<open>clearTimeout\<close> leaves the stale handle in its field.
\<close>

definition idleGames ::
  "server \<Rightarrow> GameTradingCards list option \<Rightarrow> farmer \<Rightarrow> (error + unit) \<times> farmer" where
  "idleGames srv games s =
     (case games of
        None \<Rightarrow> (Inr (), s)
      | Some gs \<Rightarrow>
          (case setTempProfilePrivacy srv True s of
             (Inl e, s1) \<Rightarrow> (Inl e, s1)
           | (Inr u, s1) \<Rightarrow> (Inr (), steamCall (GamesPlayed (map appId gs)) s1)))"

definition quitIdleGames :: "farmer \<Rightarrow> farmer" where
  "quitIdleGames s = steamCall (GamesPlayed []) s"

definition close :: "farmer \<Rightarrow> farmer" where
  "close s =
     steamCall LogOff
       ((clearTimeout (privacyTimeout s) (clearTimeout (delayTimeout s) s))
          \<lparr>readlineOpen := False\<rparr>)"

text \<open>A promise that rejects with nobody awaiting it.\<close>

definition dropPromise :: "(error + 'a) \<times> farmer \<Rightarrow> farmer" where
  "dropPromise p =
     (case p of
        (Inl e, s) \<Rightarrow> s\<lparr>unhandled := unhandled s @ [e]\<rparr>
      | (Inr v, s) \<Rightarrow> s)"

text \<open>
  \<^verbatim>\<open>_fetchCardsAndPlay\<close>, lines 316 to 345. It is run by event listeners and timers,
  which drop its promise; it does not await \<^verbatim>\<open>_idleGames\<close> either. The steps of an
  asynchronous function are put in sequence here: each reply is taken to arrive before
  the next timer fires or the next line is read, and the part of \<^verbatim>\<open>_idleGames\<close> after its
  \<^verbatim>\<open>await\<close> is run where the call stands.
\<close>

definition fetchCardsAndPlay :: "server \<Rightarrow> farmer \<Rightarrow> farmer option" where
  "fetchCardsAndPlay srv s =
     (case getBadges srv s of
        None \<Rightarrow> None
      | Some (Inl e, s1) \<Rightarrow> Some (dropPromise (Inl e :: error + unit, s1))
      | Some (Inr gamesWithCards, s1) \<Rightarrow>
          if gamesWithCards = [] then
            Some (close (dropPromise (idleGames srv None s1)))
          else
            (let s2 = dropPromise (idleGames srv (Some (take MAX_GAMES_TO_IDLE gamesWithCards)) s1);
                 s3 = clearTimeout (delayTimeout s2) s2
             in case setTimeout QuitAndDelay TIMEOUT_BETWEEN_CHECKS s3 of
                  (h, s4) \<Rightarrow> Some (s4\<lparr>delayTimeout := Some h\<rparr>)))"

text \<open>
  A live timer fires: it leaves the event loop and its callback runs. The callbacks are
  the arrow function of line 217, the one of lines 336 to 344, and \<^verbatim>\<open>_fetchCardsAndPlay\<close>
  itself (line 343).
\<close>

definition fire :: "server \<Rightarrow> nat \<Rightarrow> farmer \<Rightarrow> farmer option" where
  "fire srv h s =
     (case find (\<lambda>t. handle t = h) (liveTimers s) of
        None \<Rightarrow> Some s
      | Some t \<Rightarrow>
          (let s1 = s\<lparr>liveTimers := filter (\<lambda>t. handle t \<noteq> h) (liveTimers s)\<rparr> in
           case callback t of
             RevertPrivacy \<Rightarrow> Some (dropPromise (setTempProfilePrivacy srv False s1))
           | QuitAndDelay \<Rightarrow>
               (case setTimeout FetchCardsAndPlay 10000 (quitIdleGames s1) of
                  (h1, s2) \<Rightarrow> Some (s2\<lparr>delayTimeout := Some h1\<rparr>))
           | FetchCardsAndPlay \<Rightarrow> fetchCardsAndPlay srv s1))"

text \<open>
  The listener of \<^verbatim>\<open>webSession\<close>, lines 111 to 123, with the listener of \<^verbatim>\<open>WEB_LOGIN\<close>
  it sets off. \<^verbatim>\<open>cookie.replace(/.*=(.*?)/, "$1")\<close> keeps what follows the last equals
  sign: the group is lazy and matches nothing.
\<close>

definition afterLastEquals :: "string \<Rightarrow> string" where
  "afterLastEquals cookie =
     (if CHR ''='' \<in> set cookie then rev (takeWhile (\<lambda>c. c \<noteq> CHR ''='') (rev cookie))
      else cookie)"

definition webSessionCookie :: "farmer \<Rightarrow> string \<Rightarrow> farmer" where
  "webSessionCookie s cookie =
     (let s1 = setAxiosCookie cookie s in
      if occursIn ''sessionid'' cookie then s1\<lparr>sessionId := afterLastEquals cookie\<rparr> else s1)"

definition webSession :: "server \<Rightarrow> string list \<Rightarrow> farmer \<Rightarrow> farmer option" where
  "webSession srv cookies s = fetchCardsAndPlay srv (foldl webSessionCookie s cookies)"

subsection \<open>Lines typed by the operator\<close>

text \<open>
  \<^verbatim>\<open>_handleOnLine\<close>, lines 358 to 383. The enumeration \<^verbatim>\<open>SteamUser.EPersonaState\<close>
  belongs to the \<^verbatim>\<open>steam-user\<close> package and is a parameter: the list
  \<^verbatim>\<open>Object.entries\<close> gives, each value already under the unary plus of line 379.
\<close>

definition handleOnLine :: "(string \<times> jsnum) list \<Rightarrow> string \<Rightarrow> farmer \<Rightarrow> farmer" where
  "handleOnLine personaStates line s =
     (case splitSpace line of
        [] \<Rightarrow> s
      | cmd # args \<Rightarrow>
          if cmd = ''exit'' then close s
          else if cmd = ''state'' then
            (case args of
               [] \<Rightarrow> s
             | arg0 # rest \<Rightarrow>
                 if arg0 \<noteq> [] then
                   (let state = take 1 arg0 @ toLowerCase (drop 1 arg0) in
                    case find (\<lambda>(stateName, v). stateName = state) personaStates of
                      None \<Rightarrow> s
                    | Some (stateName, v) \<Rightarrow> steamCall (SetPersona v) s)
                 else s)
          else s)"

subsection \<open>Runs\<close>

text \<open>
  What happens to a farmer, one event after the other: the web session arrives, a timer
  fires, the operator types a line. The Steam client raises \<^verbatim>\<open>webSession\<close> for a
  listener registered with \<^verbatim>\<open>once\<close> a single time; a run may hold it more often, which
  only adds runs.
\<close>

datatype event = WebSession "string list" | Fires nat | Line string

definition happens :: "server \<Rightarrow> (string \<times> jsnum) list \<Rightarrow> event \<Rightarrow> farmer \<Rightarrow> farmer option" where
  "happens srv personaStates e s =
     (case e of
        WebSession cookies \<Rightarrow> webSession srv cookies s
      | Fires h \<Rightarrow> fire srv h s
      | Line l \<Rightarrow> Some (handleOnLine personaStates l s))"

fun run :: "server \<Rightarrow> (string \<times> jsnum) list \<Rightarrow> event list \<Rightarrow> farmer \<Rightarrow> farmer option" where
  "run srv personaStates [] s = Some s"
| "run srv personaStates (e # es) s =
     (case happens srv personaStates e s of
        None \<Rightarrow> None
      | Some s1 \<Rightarrow> run srv personaStates es s1)"

subsection \<open>Observations\<close>



definition unlockCookies :: "string list \<Rightarrow> nat" where
  "unlockCookies jar = length (filter (occursIn ''steamparental'') jar)"

text \<open>What an observer of the account and of the process sees of a state.\<close>

definition seen :: "farmer \<Rightarrow> bool \<times> timer list \<times> request list \<times> steam_call list" where
  "seen s = (profilePrivate s, liveTimers s, sent s, steamCalls s)"



subsection \<open>Predicates of the properties\<close>


text \<open>The games whose id is among the picked ones, in their order.\<close>

definition picks :: "jsnum set \<Rightarrow> GameTradingCards list \<Rightarrow> GameTradingCards list" where
  "picks picked games = filter (\<lambda>g. appId g \<in> picked) games"

text \<open>
  The bookkeeping of the cycle timer: handles are fresh and distinct, and a live timer
  other than a revert of the privacy is the one \<open>delayTimeout\<close> holds.
\<close>

definition timersTracked :: "farmer \<Rightarrow> bool" where
  "timersTracked s =
     ((\<forall>t\<in>set (liveTimers s). handle t < nextHandle s)
      \<and> distinct (map handle (liveTimers s))
      \<and> (\<forall>t\<in>set (liveTimers s). callback t \<noteq> RevertPrivacy \<longrightarrow> delayTimeout s = Some (handle t)))"

subsection \<open>Servers and pages to run the code on\<close>

definition emptyPage :: badges_page where
  "emptyPage = \<lparr>pagelinks = 0, badgeRows = []\<rparr>"

text \<open>
  A server behind a parental wall: it rejects the badge listing until the jar holds \<open>k\<close>
  unlock cookies, accepts every PIN with a new unlock cookie, and accepts every change
  of the profile's privacy. With \<open>k = 0\<close> there is no wall.
\<close>

definition wallServer :: "nat \<Rightarrow> badges_page \<Rightarrow> server" where
  "wallServer k pg n jar q =
     (case q of
        GetBadges profile p \<Rightarrow>
          if unlockCookies jar < k then Rejected
          else Reply \<lparr>setCookie = [], success = False, badges = pg\<rparr>
      | PostUnlock pin sid \<Rightarrow>
          Reply \<lparr>setCookie = [''steamparental=ok; path=/''], success = True,
                  badges = emptyPage\<rparr>
      | PostPrivacy profile isPrivate sid \<Rightarrow>
          Reply \<lparr>setCookie = [], success = True, badges = emptyPage\<rparr>)"



definition badgeRow :: "string \<Rightarrow> string \<Rightarrow> string \<Rightarrow> badge_row" where
  "badgeRow drops app title =
     \<lparr>dropsText = drops,
       overlayHref = Some (''https://steamcommunity.com/profiles/7656/gamecards/'' @ app @ ''/''),
       titleText = title\<rparr>"

text \<open>One page with three games, of which the second has no drops left.\<close>

definition threeGames :: badges_page where
  "threeGames =
     \<lparr>pagelinks = 0,
       badgeRows =
         [badgeRow ''3 card drops remaining'' ''1'' ''One'',
          badgeRow ''No card drops remaining'' ''2'' ''Two'',
          badgeRow ''5 card drops remaining'' ''3'' ''Three'']\<rparr>"

text \<open>One page whose only row spells the absence of drops with a digit.\<close>

definition zeroDrops :: badges_page where
  "zeroDrops =
     \<lparr>pagelinks = 0, badgeRows = [badgeRow ''0 card drops remaining'' ''440'' ''Zero'']\<rparr>"

text \<open>One page with forty games, numbered 10 to 49, one drop left each.\<close>

definition fortyGames :: badges_page where
  "fortyGames =
     \<lparr>pagelinks = 0,
       badgeRows =
         map (\<lambda>(a, b). badgeRow ''1 card drop remaining'' [a, b] [a, b])
           (List.product ''1234'' ''0123456789'')\<rparr>"

text \<open>What the scan reads from that page.\<close>

definition fortyCards :: "GameTradingCards list" where
  "fortyCards =
     map (\<lambda>(a, b). \<lparr>appTitle = [a, b], appId = toNumber [a, b], leftCards = 1\<rparr>)
       (List.product ''1234'' ''0123456789'')"


definition farmer0 :: farmer where
  "farmer0 = CardFarmer (Some ''user'') (Some ''pass'') (Some ''1234'') NoFile"

text \<open>
  The names and values of Steam's persona states as the \<^verbatim>\<open>steam-user\<close> package
  enumerates them. The package is not part of the repository; the table serves to run
  \<open>handleOnLine\<close> on.
\<close>

definition EPersonaState :: "(string \<times> jsnum) list" where
  "EPersonaState =
     [(''Offline'', Num 0), (''Online'', Num 1), (''Busy'', Num 2), (''Away'', Num 3),
      (''Snooze'', Num 4), (''LookingToTrade'', Num 5), (''LookingToPlay'', Num 6),
      (''Invisible'', Num 7)]"

section \<open>Properties\<close>

subsection \<open>One round of the loop\<close>

lemma axiosRequest_cases:
  assumes "axiosRequest srv q s = (x, s1)"
  shows "(x = Rejected \<and> srv (length (sent s)) (cookiesJar s) q = Rejected
        \<and> s1 = s\<lparr>sent := sent s @ [q]\<rparr>)
   \<or> (\<exists>r. x = Reply r \<and> srv (length (sent s)) (cookiesJar s) q = Reply r
        \<and> s1 = s\<lparr>sent := sent s @ [q], cookiesJar := cookiesJar s @ setCookie r\<rparr>)"
proof (cases "srv (length (sent s)) (cookiesJar s) q")
  case Rejected
  with assms show ?thesis by (simp add: axiosRequest_def)
next
  case (Reply r)
  with assms have "x = Reply r"
    and "s1 = s\<lparr>sent := sent s @ [q], cookiesJar := cookiesJar s @ setCookie r\<rparr>"
    by (simp_all add: axiosRequest_def)
  with Reply show ?thesis by blast
qed



lemma loop_ends:
  "\<not> p \<le> t \<Longrightarrow> badgesLoop srv s p t acc = Some (Inr acc, s)"
  by (subst badgesLoop.simps) simp

lemma page_continues:
  "p \<le> t \<Longrightarrow> tryPage srv p s = (Some (t1, games), s1) \<Longrightarrow>
     badgesLoop srv s p t acc = badgesLoop srv s1 (p + 1) t1 (acc @ games)"
  by (subst badgesLoop.simps) simp

subsection \<open>Log-on\<close>

text \<open>
  C10: \<^verbatim>\<open>start\<close> sends the constructor's account name, and the constructor's password,
  whenever that value is a non-empty string, whatever its own argument is; its argument is
  sent only when the constructor's value is absent or empty. The two-factor code is
  always the argument.
\<close>

theorem start_credentials:
  assumes "last (steamCalls (start a p c s)) = LogOn x y t"
  shows "(\<forall>n. accountName s = Some n \<and> n \<noteq> [] \<longrightarrow> x = Some n)
       \<and> (accountName s = None \<or> accountName s = Some [] \<longrightarrow> x = a)
       \<and> (\<forall>w. password s = Some w \<and> w \<noteq> [] \<longrightarrow> y = Some w)
       \<and> (password s = None \<or> password s = Some [] \<longrightarrow> y = p)
       \<and> t = c"
  using assms by (auto simp: start_def steamCall_def orElse_def)

theorem start_credentials_witness:
  "last (steamCalls (start (Some ''other'') None (Some ''2FA'') farmer0))
     = LogOn (Some ''user'') (Some ''pass'') (Some ''2FA'')
   \<and> last (steamCalls (start (Some ''other'') (Some ''word'') None
        (CardFarmer (Some []) None None NoFile)))
     = LogOn (Some ''other'') (Some ''word'') None"
proof -
  have a: "last (steamCalls (start (Some ''other'') None (Some ''2FA'') farmer0))
     = LogOn (Some ''user'') (Some ''pass'') (Some ''2FA'')"
    by (simp add: start_def steamCall_def orElse_def farmer0_def CardFarmer_def)
  have b: "last (steamCalls (start (Some ''other'') (Some ''word'') None
        (CardFarmer (Some []) None None NoFile)))
     = LogOn (Some ''other'') (Some ''word'') None"
    by (simp add: start_def steamCall_def orElse_def farmer0_def CardFarmer_def)
  from start_credentials [OF a] start_credentials [OF b] a b show ?thesis by simp
qed

subsection \<open>The scan behind a parental wall\<close>



lemma wallServer_passes:
  assumes "k \<le> unlockCookies (cookiesJar s)" and "pagelinks pg = 0"
    and "readRows (userGames s) (badgeRows pg) = Some games"
  shows "getBadges (wallServer k pg) s
           = Some (Inr games, s\<lparr>sent := sent s @ [GetBadges (profileOf s) 1]\<rparr>)"
proof -
  have tp: "tryPage (wallServer k pg) 1 s
              = (Some (1, games), s\<lparr>sent := sent s @ [GetBadges (profileOf s) 1]\<rparr>)"
    using assms by (simp add: tryPage_def axiosRequest_def wallServer_def)
  have "badgesLoop (wallServer k pg) s 1 1 []
          = badgesLoop (wallServer k pg) (s\<lparr>sent := sent s @ [GetBadges (profileOf s) 1]\<rparr>)
              (1 + 1) 1 ([] @ games)"
    by (rule page_continues [OF _ tp]) simp
  also have "\<dots> = Some (Inr ([] @ games), s\<lparr>sent := sent s @ [GetBadges (profileOf s) 1]\<rparr>)"
    by (rule loop_ends) simp
  finally show ?thesis by (simp add: getBadges_def)
qed



subsection \<open>The pages and servers, evaluated\<close>

lemma threeGames_read:
  "readRows None (badgeRows threeGames)
     = Some [\<lparr>appTitle = ''One'', appId = Num 1, leftCards = 3\<rparr>,
             \<lparr>appTitle = ''Three'', appId = Num 3, leftCards = 5\<rparr>]"
  by code_simp

lemma zeroDrops_read:
  "readRows None (badgeRows zeroDrops)
     = Some [\<lparr>appTitle = ''Zero'', appId = Num 440, leftCards = 0\<rparr>]"
  by code_simp

lemma fortyGames_read: "readRows None (badgeRows fortyGames) = Some fortyCards"
  by code_simp

lemma farmer0_fields:
  "parentalPin farmer0 = Num 1234" "userGames farmer0 = None" "cookiesJar farmer0 = []"
  "sent farmer0 = []" "steamCalls farmer0 = []" "liveTimers farmer0 = []"
  "sessionId farmer0 = []" "steamID farmer0 = None" "nextHandle farmer0 = 0"
  "delayTimeout farmer0 = None" "privacyTimeout farmer0 = None" "unhandled farmer0 = []"
  "profilePrivate farmer0 = False" "readlineOpen farmer0 = True"
  by (simp_all add: farmer0_def CardFarmer_def toNumber_def isDigit_def decimalValue_def digitVal_def)


lemma webSession_cookie:
  "foldl webSessionCookie farmer0 [''sessionid=abc'']
     = farmer0\<lparr>cookiesJar := [''sessionid=abc''], sessionId := ''abc''\<rparr>"
  by (simp add: webSessionCookie_def setAxiosCookie_def afterLastEquals_def farmer0_fields)

lemma threeGames_scan_session:
  "getBadges (wallServer 0 threeGames) (farmer0\<lparr>cookiesJar := [''sessionid=abc''], sessionId := ''abc''\<rparr>)
     = Some (Inr [\<lparr>appTitle = ''One'', appId = Num 1, leftCards = 3\<rparr>,
                  \<lparr>appTitle = ''Three'', appId = Num 3, leftCards = 5\<rparr>],
             farmer0\<lparr>cookiesJar := [''sessionid=abc''], sessionId := ''abc'',
                     sent := [GetBadges ''undefined'' 1]\<rparr>)"
  using wallServer_passes [of 0 "farmer0\<lparr>cookiesJar := [''sessionid=abc''], sessionId := ''abc''\<rparr>" threeGames]
  by (simp add: farmer0_fields threeGames_read profileOf_def) (simp add: threeGames_def)

lemma threeGames_cycle:
  "webSession (wallServer 0 threeGames) [''sessionid=abc''] farmer0
     = Some (farmer0\<lparr>cookiesJar := [''sessionid=abc''], sessionId := ''abc'',
               sent := [GetBadges ''undefined'' 1, PostPrivacy ''undefined'' True ''abc''],
               profilePrivate := True,
               privacyTimeout := Some 0,
               steamCalls := [GamesPlayed [Num 1, Num 3]],
               liveTimers := [\<lparr>handle = 0, delay = 10000, callback = RevertPrivacy\<rparr>,
                              \<lparr>handle = 1, delay = 900000, callback = QuitAndDelay\<rparr>],
               nextHandle := 2,
               delayTimeout := Some 1\<rparr>)"
proof -
  have "webSession (wallServer 0 threeGames) [''sessionid=abc''] farmer0
          = fetchCardsAndPlay (wallServer 0 threeGames)
              (farmer0\<lparr>cookiesJar := [''sessionid=abc''], sessionId := ''abc''\<rparr>)"
    by (simp only: webSession_def webSession_cookie)
  then show ?thesis
    by (simp add: fetchCardsAndPlay_def threeGames_scan_session
      idleGames_def setTempProfilePrivacy_def axiosRequest_def wallServer_def setTimeout_def
      dropPromise_def steamCall_def clearTimeout_def MAX_GAMES_TO_IDLE_def
      TIMEOUT_BETWEEN_CHECKS_def farmer0_fields profileOf_def Let_def)
qed




subsection \<open>The unlock cookie\<close>

text \<open>
  C2: when \<^verbatim>\<open>parentalUnlock\<close> returns normally, the reply reported success and its first
  \<^verbatim>\<open>set-cookie\<close> header that mentions \<^verbatim>\<open>steamparental\<close> is the cookie returned; that
  cookie is in the jar the next requests are sent with, the cookies the jar held before
  are all still there, and the session has not been logged off. The jar receives the
  cookie from the cookie-jar support of the HTTP client; the method itself hands the
  cookie back to \<^verbatim>\<open>getBadges\<close>, which drops it.
\<close>

theorem parentalUnlock_cookie_in_jar:
  assumes "parentalUnlock srv pin s = (Inr parentalCookie, s1)"
  shows "occursIn ''steamparental'' parentalCookie
       \<and> parentalCookie \<in> set (cookiesJar s1)
       \<and> (\<exists>new. cookiesJar s1 = cookiesJar s @ new)
       \<and> steamCalls s1 = steamCalls s
       \<and> (\<exists>r. srv (length (sent s)) (cookiesJar s) (PostUnlock pin (sessionId s)) = Reply r
             \<and> success r
             \<and> find (occursIn ''steamparental'') (setCookie r) = Some parentalCookie)"
proof -
  obtain x s0 where ax: "axiosRequest srv (PostUnlock pin (sessionId s)) s = (x, s0)"
    by (cases "axiosRequest srv (PostUnlock pin (sessionId s)) s")
  from assms ax obtain r where x: "x = Reply r" and ok: "success r"
    and f: "find (occursIn ''steamparental'') (setCookie r) = Some parentalCookie"
    and s1: "s1 = s0"
    by (auto simp: parentalUnlock_def split: response.splits option.splits if_splits)
  from axiosRequest_cases [OF ax] x
  have srv: "srv (length (sent s)) (cookiesJar s) (PostUnlock pin (sessionId s)) = Reply r"
    and s0: "s0 = s\<lparr>sent := sent s @ [PostUnlock pin (sessionId s)],
                     cookiesJar := cookiesJar s @ setCookie r\<rparr>"
    by auto
  from f have "occursIn ''steamparental'' parentalCookie" "parentalCookie \<in> set (setCookie r)"
    by (auto simp: find_Some_iff)
  with srv ok f s0 s1 show ?thesis by auto
qed

theorem parentalUnlock_cookie_in_jar_witness:
  "parentalUnlock (wallServer 1 emptyPage) (Num 1234) farmer0
     = (Inr ''steamparental=ok; path=/'',
        farmer0\<lparr>sent := [PostUnlock (Num 1234) []],
                cookiesJar := [''steamparental=ok; path=/'']\<rparr>)
   \<and> occursIn ''steamparental'' ''steamparental=ok; path=/''
   \<and> ''steamparental=ok; path=/''
        \<in> set (cookiesJar (farmer0\<lparr>sent := [PostUnlock (Num 1234) []],
                cookiesJar := [''steamparental=ok; path=/'']\<rparr>))"
proof -
  have a: "parentalUnlock (wallServer 1 emptyPage) (Num 1234) farmer0
     = (Inr ''steamparental=ok; path=/'',
        farmer0\<lparr>sent := [PostUnlock (Num 1234) []],
                cookiesJar := [''steamparental=ok; path=/'']\<rparr>)"
    by (simp add: parentalUnlock_def axiosRequest_def wallServer_def farmer0_fields)
  from parentalUnlock_cookie_in_jar [OF a] a show ?thesis by simp
qed

subsection \<open>What the scan returns\<close>










subsection \<open>The picked games\<close>

lemma picks_simps [simp]:
  "picks picked [] = []"
  "picks picked (xs @ ys) = picks picked xs @ picks picked ys"
  by (simp_all add: picks_def)



lemma axiosRequest_userGames:
  "axiosRequest srv q (s\<lparr>userGames := ug\<rparr>)
     = (fst (axiosRequest srv q s), (snd (axiosRequest srv q s))\<lparr>userGames := ug\<rparr>)"
  by (simp add: axiosRequest_def split: response.splits)

lemma axiosRequest_keeps_userGames:
  "userGames (snd (axiosRequest srv q s)) = userGames s"
  by (simp add: axiosRequest_def split: response.splits)












subsection \<open>The games that are played\<close>

text \<open>
  C4: when the scan returns a list, \<^verbatim>\<open>_fetchCardsAndPlay\<close> tells the Steam client to play
  at most once, and then exactly the ids of the first \<open>min 27 (length games)\<close> games of
  the list, in the order of the scan; it does so whenever the list is not empty and the
  profile could be made private.
\<close>

theorem first_27_are_played:
  assumes "getBadges srv s = Some (Inr games, s1)"
  shows "\<exists>s' new. fetchCardsAndPlay srv s = Some s'
       \<and> steamCalls s' = steamCalls s1 @ new
       \<and> (\<forall>ids. GamesPlayed ids \<in> set new
            \<longrightarrow> ids = map appId (take (min 27 (length games)) games)
               \<and> length ids = min 27 (length games))
       \<and> (games \<noteq> [] \<and> fst (setTempProfilePrivacy srv True s1) = Inr ()
            \<longrightarrow> new = [GamesPlayed (map appId (take MAX_GAMES_TO_IDLE games))])"
proof (cases "games = []")
  case True
  with assms show ?thesis
    by (simp add: fetchCardsAndPlay_def idleGames_def dropPromise_def close_def
        clearTimeout_def steamCall_def split: option.splits)
next
  case False
  obtain r s2 where p: "setTempProfilePrivacy srv True s1 = (r, s2)"
    by (cases "setTempProfilePrivacy srv True s1")
  have calls: "steamCalls s2 = steamCalls s1 @ (case r of Inl e \<Rightarrow> (if e = PrivacyNotSet then [LogOff] else []) | Inr u \<Rightarrow> [])"
    using p
    by (auto simp: setTempProfilePrivacy_def axiosRequest_def steamCall_def setTimeout_def Let_def
        split: response.splits if_splits)
  show ?thesis
  proof (cases r)
    case (Inl e)
    with assms False p calls show ?thesis
      by (simp add: fetchCardsAndPlay_def idleGames_def dropPromise_def Let_def
          clearTimeout_def setTimeout_def split: option.splits)
  next
    case (Inr u)
    with assms False p calls show ?thesis
      by (simp add: fetchCardsAndPlay_def idleGames_def dropPromise_def steamCall_def Let_def
          clearTimeout_def setTimeout_def MAX_GAMES_TO_IDLE_def min_def split: option.splits)
  qed
qed

lemma fortyGames_scan:
  "getBadges (wallServer 0 fortyGames) farmer0
     = Some (Inr fortyCards, farmer0\<lparr>sent := [GetBadges ''undefined'' 1]\<rparr>)"
  using wallServer_passes [of 0 farmer0 fortyGames]
  by (simp add: farmer0_fields fortyGames_read profileOf_def) (simp add: fortyGames_def)

lemma fortyCards_length: "length fortyCards = 40"
  by (simp add: fortyCards_def)

theorem first_27_are_played_witness:
  "getBadges (wallServer 0 fortyGames) farmer0
     = Some (Inr fortyCards, farmer0\<lparr>sent := [GetBadges ''undefined'' 1]\<rparr>)
   \<and> (\<exists>s'. fetchCardsAndPlay (wallServer 0 fortyGames) farmer0 = Some s'
         \<and> steamCalls s' = [GamesPlayed (map appId (take 27 fortyCards))])
   \<and> length (map appId (take 27 fortyCards)) = 27"
proof -
  note a = fortyGames_scan
  have ne: "fortyCards \<noteq> []" using fortyCards_length by auto
  have ok: "fst (setTempProfilePrivacy (wallServer 0 fortyGames) True
               (farmer0\<lparr>sent := [GetBadges ''undefined'' 1]\<rparr>)) = Inr ()"
    by (simp add: setTempProfilePrivacy_def axiosRequest_def wallServer_def setTimeout_def
        farmer0_fields)
  from first_27_are_played [OF a] ne ok a show ?thesis
    by (auto simp: MAX_GAMES_TO_IDLE_def farmer0_fields fortyCards_length)
qed

subsection \<open>Shutting down\<close>

text \<open>
  C6, as the code has it: \<^verbatim>\<open>close\<close> clears the timers whose handles are in
  \<^verbatim>\<open>_delayTimeout\<close> and \<^verbatim>\<open>_privacyTimeout\<close>, closes the readline interface and logs the
  session off. It sends no request, so the visibility of the profile stays what it was.
\<close>

theorem close_effect:
  "liveTimers (close s) =
     filter (\<lambda>t. Some (handle t) \<noteq> delayTimeout s \<and> Some (handle t) \<noteq> privacyTimeout s)
       (liveTimers s)
   \<and> steamCalls (close s) = steamCalls s @ [LogOff]
   \<and> \<not> readlineOpen (close s)
   \<and> sent (close s) = sent s
   \<and> profilePrivate (close s) = profilePrivate s"
  by (auto simp: close_def clearTimeout_def steamCall_def split: option.splits intro: filter_cong)

theorem close_effect_witness:
  "liveTimers (close (farmer0\<lparr>liveTimers := [\<lparr>handle = 0, delay = 10000, callback = RevertPrivacy\<rparr>,
                              \<lparr>handle = 1, delay = 900000, callback = QuitAndDelay\<rparr>],
               privacyTimeout := Some 0, delayTimeout := Some 1, profilePrivate := True\<rparr>)) = []
   \<and> profilePrivate (close (farmer0\<lparr>liveTimers := [\<lparr>handle = 0, delay = 10000, callback = RevertPrivacy\<rparr>,
                              \<lparr>handle = 1, delay = 900000, callback = QuitAndDelay\<rparr>],
               privacyTimeout := Some 0, delayTimeout := Some 1, profilePrivate := True\<rparr>))"
  using close_effect [of "farmer0\<lparr>liveTimers := [\<lparr>handle = 0, delay = 10000, callback = RevertPrivacy\<rparr>,
                              \<lparr>handle = 1, delay = 900000, callback = QuitAndDelay\<rparr>],
               privacyTimeout := Some 0, delayTimeout := Some 1, profilePrivate := True\<rparr>"]
  by simp

text \<open>
  The operator types \<^verbatim>\<open>exit\<close> while the revert timer of the first cycle is pending: the
  profile stays private, no timer is left to revert it, and the only privacy request
  ever sent is the one that made it private.
\<close>

theorem exit_leaves_profile_private:
  "map_option seen
     (run (wallServer 0 threeGames) EPersonaState
        [WebSession [''sessionid=abc''], Line ''exit''] farmer0)
   = Some (True, [],
           [GetBadges ''undefined'' 1, PostPrivacy ''undefined'' True ''abc''],
           [GamesPlayed [Num 1, Num 3], LogOff])"
  by (simp add: happens_def threeGames_cycle handleOnLine_def isSpace_def close_def
      clearTimeout_def steamCall_def seen_def)

subsection \<open>A refused change of privacy\<close>




subsection \<open>Timers\<close>

lemma axiosRequest_tracked:
  "timersTracked (snd (axiosRequest srv q s)) = timersTracked s"
  by (simp add: axiosRequest_def timersTracked_def split: response.splits)
























subsection \<open>The persona state typed by the operator\<close>

text \<open>
  C9: the name after \<^verbatim>\<open>state\<close> is meant to be matched whatever its capitals. The code
  lowers every letter but the first, which it leaves as typed: with \<^verbatim>\<open>Online\<close> in the
  enumeration, \<^verbatim>\<open>state ONLINE\<close> and \<^verbatim>\<open>state Online\<close> select it and \<^verbatim>\<open>state online\<close>
  selects nothing.
\<close>

theorem state_name_first_letter:
  assumes "find (\<lambda>(stateName, v). stateName = ''Online'') personaStates = Some (''Online'', v)"
    and "find (\<lambda>(stateName, v). stateName = ''online'') personaStates = None"
  shows "handleOnLine personaStates ''state online'' s = s
       \<and> handleOnLine personaStates ''state ONLINE'' s = steamCall (SetPersona v) s
       \<and> handleOnLine personaStates ''state Online'' s = steamCall (SetPersona v) s"
  using assms
  by (simp add: handleOnLine_def isSpace_def toLowerCase_def lowerChar_def)

theorem state_name_first_letter_witness:
  "handleOnLine EPersonaState ''state online'' farmer0 = farmer0
   \<and> handleOnLine EPersonaState ''state ONLINE'' farmer0 = steamCall (SetPersona (Num 1)) farmer0
   \<and> handleOnLine EPersonaState ''state Online'' farmer0 = steamCall (SetPersona (Num 1)) farmer0"
proof -
  have a: "find (\<lambda>(stateName, v). stateName = ''Online'') EPersonaState = Some (''Online'', Num 1)"
    by (simp add: EPersonaState_def)
  have b: "find (\<lambda>(stateName, v). stateName = ''online'') EPersonaState = None"
    by (simp add: EPersonaState_def)
  from state_name_first_letter [OF a b] show ?thesis .
qed

text \<open>A name with a capital inside is lowered away from itself and cannot be selected.\<close>

lemma camel_case_names_unreachable:
  "handleOnLine EPersonaState ''state LookingToTrade'' s = s"
  by (simp add: handleOnLine_def isSpace_def toLowerCase_def lowerChar_def EPersonaState_def)

end
